theory Spec2Isabelle
  imports Complex_Main "HOL-Library.Sublist" "HOL-Library.AList"
    "HOL-Library.Char_ord" "HOL-Library.List_Lexorder"
begin

section \<open>Food Shop API: the handlers of main.py over a model of the document store\<close>

text \<open>
  The repository is one file, \<^verbatim>\<open>main.py\<close>: six route handlers over a single
  collection \<^verbatim>\<open>product\<close> of a document store. The handlers are embedded function
  by function. What they import from \<^verbatim>\<open>database.py\<close> and \<^verbatim>\<open>schemas.py\<close> (the
  connection handle \<^verbatim>\<open>db\<close>, \<^verbatim>\<open>create_document\<close>, \<^verbatim>\<open>get_documents\<close>, the class
  \<^verbatim>\<open>Product\<close>) is modelled from the specification, and marked so.

  Conventions. A Python string is a \<^typ>\<open>string\<close>, one \<^typ>\<open>char\<close> per character; the
  three status symbols outside ASCII that \<^verbatim>\<open>/test\<close> prints are spelt by their UTF-8
  bytes. A raised exception is the left injection of a sum, so every \<^verbatim>\<open>raise\<close> and
  every \<^verbatim>\<open>except\<close> of the source is a branch of the model. A handler that writes
  to the store returns the connection handle next to its result.
\<close>

subsection \<open>Values and documents\<close>

text \<open>
  A Python float is kept with the text \<^verbatim>\<open>repr\<close> gives it: the handlers never compute
  with a float, they pass it through and (possibly) print it.
\<close>

datatype pyfloat = PyFloat (float_value: real) (float_repr: string)

text \<open>
  The values a product document holds: \<^verbatim>\<open>None\<close>, booleans, text, floats, the
  store-native identifier (an \<^verbatim>\<open>ObjectId\<close>, a 12-byte number) and timestamps. A
  timestamp is identified by the text \<^verbatim>\<open>str\<close> gives it, which is all the program
  ever asks of one.
\<close>

datatype val =
    VNone
  | VBool bool
  | VStr string
  | VFloat pyfloat
  | VObjectId nat
  | VDatetime string

type_synonym document = "string \<rightharpoonup> val"

definition hex_digit :: "nat \<Rightarrow> char" where
  "hex_digit n = ''0123456789abcdef'' ! (n mod 16)"

fun hex_digits :: "nat \<Rightarrow> nat \<Rightarrow> string" where
  "hex_digits 0 n = []"
| "hex_digits (Suc k) n = hex_digits k (n div 16) @ [hex_digit n]"

text \<open>\<^verbatim>\<open>str(ObjectId)\<close>: the 24 hexadecimal digits of the identifier.\<close>

definition oid_text :: "nat \<Rightarrow> string" where
  "oid_text n = hex_digits 24 n"

text \<open>Python's \<^verbatim>\<open>str\<close> on the values above.\<close>

fun py_str :: "val \<Rightarrow> string" where
  "py_str VNone = ''None''"
| "py_str (VBool b) = (if b then ''True'' else ''False'')"
| "py_str (VStr s) = s"
| "py_str (VFloat f) = float_repr f"
| "py_str (VObjectId n) = oid_text n"
| "py_str (VDatetime t) = t"

text \<open>Python's truth value, as \<^verbatim>\<open>if c\<close> and \<^verbatim>\<open>[c for c in categories if c]\<close> use it.\<close>

fun truthy :: "val \<Rightarrow> bool" where
  "truthy VNone = False"
| "truthy (VBool b) = b"
| "truthy (VStr s) = (s \<noteq> [])"
| "truthy (VFloat f) = (float_value f \<noteq> 0)"
| "truthy (VObjectId n) = True"
| "truthy (VDatetime t) = True"

subsection \<open>Exceptions\<close>

text \<open>
  \<^verbatim>\<open>HTTPException(status_code, detail)\<close> is what the handlers raise themselves;
  \<open>RequestValidationError\<close> is the framework's rejection of a request whose parameters
  or body break the declared constraints (status 422); \<open>ResponseValidationError\<close> is its
  refusal of what a handler returned, when that does not fit the route's
  \<^verbatim>\<open>response_model\<close> (status 500); \<open>Exception\<close> is any other exception, with its text
  (\<^verbatim>\<open>str(e)\<close>).
\<close>

datatype exn =
    HTTPException nat string
  | RequestValidationError
  | ResponseValidationError
  | Exception string

text \<open>
  \<^verbatim>\<open>str(e)\<close>, as the \<^verbatim>\<open>except\<close> clauses of the handlers use it. They only ever catch
  what the store raises, an \<open>Exception\<close>; for the exceptions of the framework, which no
  handler catches, the model gives the detail.
\<close>

fun exn_text :: "exn \<Rightarrow> string" where
  "exn_text (HTTPException c d) = d"
| "exn_text RequestValidationError = ''validation error''"
| "exn_text ResponseValidationError = ''response validation error''"
| "exn_text (Exception m) = m"

text \<open>The status of the response the framework sends for an exception that leaves a handler.\<close>

fun status_of :: "exn \<Rightarrow> nat" where
  "status_of (HTTPException c d) = c"
| "status_of RequestValidationError = 422"
| "status_of ResponseValidationError = 500"
| "status_of (Exception m) = 500"

definition not_configured :: exn where
  "not_configured = HTTPException 500 ''Database not configured''"

subsection \<open>Response normalisation (main.py, lines 49 to 58)\<close>

text \<open>
  The body of the loop of \<^verbatim>\<open>list_products\<close>, on one document: copy it, pop \<^verbatim>\<open>_id\<close>
  (default the empty string) and store its text under \<^verbatim>\<open>id\<close>, then replace
  \<^verbatim>\<open>created_at\<close> and \<^verbatim>\<open>updated_at\<close> by their text where the key is present.
\<close>

definition stringify_key :: "string \<Rightarrow> document \<Rightarrow> document" where
  "stringify_key k d = (case d k of None \<Rightarrow> d | Some v \<Rightarrow> d(k \<mapsto> VStr (py_str v)))"

definition normalize_record :: "document \<Rightarrow> document" where
  "normalize_record d0 =
     (let popped = (case d0 ''_id'' of None \<Rightarrow> VStr [] | Some v \<Rightarrow> v);
          d1 = d0(''_id'' := None);
          d2 = d1(''id'' \<mapsto> VStr (py_str popped));
          d3 = stringify_key ''created_at'' d2;
          d4 = stringify_key ''updated_at'' d3
      in d4)"

subsection \<open>The Product payload\<close>

text \<open>
  Modelled from the spec: the class \<^verbatim>\<open>Product\<close> of \<^verbatim>\<open>schemas.py\<close>, which is not among
  the sources. Section 3 of the specification gives its fields: \<^verbatim>\<open>title\<close> (non-empty
  text), \<^verbatim>\<open>description\<close> (text, optional), \<^verbatim>\<open>price\<close> (a non-negative number),
  \<^verbatim>\<open>category\<close> (text, optional), \<^verbatim>\<open>in_stock\<close> (a boolean). The identifier is not a
  field of the payload: the store assigns it.
\<close>

record product =
  title :: string
  description :: "string option"
  price :: pyfloat
  category :: "string option"
  in_stock :: bool

text \<open>Modelled from the spec: the validation of a payload against \<^verbatim>\<open>Product\<close>.\<close>

definition valid_product :: "product \<Rightarrow> bool" where
  "valid_product p = (title p \<noteq> [] \<and> 0 \<le> float_value (price p))"

fun opt_text :: "string option \<Rightarrow> val" where
  "opt_text None = VNone"
| "opt_text (Some s) = VStr s"

text \<open>Modelled from the spec: the fields of a validated record, as a document to insert.\<close>

definition product_fields :: "product \<Rightarrow> document" where
  "product_fields p =
     [''title'' \<mapsto> VStr (title p),
      ''description'' \<mapsto> opt_text (description p),
      ''price'' \<mapsto> VFloat (price p),
      ''category'' \<mapsto> opt_text (category p),
      ''in_stock'' \<mapsto> VBool (in_stock p)]"

subsection \<open>The document store\<close>

text \<open>
  The external store behind the connection handle: named collections, each a sequence of
  documents in the store's own order, the next identifier the store will assign, and
  whether the store is reachable: with \<open>fault = Some m\<close> every access raises an
  exception of text \<open>m\<close>. The handle \<^verbatim>\<open>db\<close> of the source is a \<open>store option\<close>,
  \<open>None\<close> when no connection was configured.
\<close>

record store =
  db_name :: string
  collections :: "(string \<times> document list) list"
  next_oid :: nat
  fault :: "string option"

definition docs_of :: "store \<Rightarrow> string \<Rightarrow> document list" where
  "docs_of st c = (case map_of (collections st) c of None \<Rightarrow> [] | Some ds \<Rightarrow> ds)"

text \<open>\<^verbatim>\<open>db[c].count_documents({})\<close>\<close>

definition count_documents :: "store \<Rightarrow> string \<Rightarrow> exn + nat" where
  "count_documents st c =
     (case fault st of Some m \<Rightarrow> Inl (Exception m) | None \<Rightarrow> Inr (length (docs_of st c)))"

text \<open>
  \<^verbatim>\<open>db[c].distinct(field)\<close>: the values of the field over the documents that have it,
  each once.
\<close>

definition distinct_values :: "store \<Rightarrow> string \<Rightarrow> string \<Rightarrow> exn + val list" where
  "distinct_values st c field =
     (case fault st of
        Some m \<Rightarrow> Inl (Exception m)
      | None \<Rightarrow> Inr (remdups (List.map_filter (\<lambda>d. d field) (docs_of st c))))"

text \<open>\<^verbatim>\<open>db.list_collection_names()\<close>\<close>

definition list_collection_names :: "store \<Rightarrow> exn + string list" where
  "list_collection_names st =
     (case fault st of Some m \<Rightarrow> Inl (Exception m) | None \<Rightarrow> Inr (map fst (collections st)))"

subsection \<open>Filters\<close>

text \<open>
  The filter dictionaries \<^verbatim>\<open>list_products\<close> builds: \<^verbatim>\<open>{field: value}\<close>,
  \<^verbatim>\<open>{field: {"$regex": pattern, "$options": options}}\<close>, \<^verbatim>\<open>{"$or": [...]}\<close>, and a
  dictionary of several keys, which the store reads as their conjunction.
\<close>

datatype query =
    Field_eq string val
  | Field_regex string string string
  | Or_query "query list"
  | And_query "query list"

text \<open>
  The store's pattern match, for the patterns this model covers: a pattern is a sequence
  of characters, each standing for itself, except the dot, which stands for any character
  but a newline. A pattern is searched for anywhere in the subject; with the option
  \<^verbatim>\<open>i\<close> letters match without regard to case. Every other operator of the store's
  regular expressions (\<open>regex_special\<close>) is outside the model, and so is every option
  but \<^verbatim>\<open>i\<close>: \<open>regex_covered\<close> says whether the model covers a pattern.
\<close>

text \<open>Letter case is that of the ASCII letters \<^verbatim>\<open>A\<close> to \<^verbatim>\<open>Z\<close>.\<close>

definition to_lower :: "char \<Rightarrow> char" where
  "to_lower c =
     (let n = (of_char c :: nat) in if 65 \<le> n \<and> n \<le> 90 then char_of (n + 32) else c)"

definition regex_special :: "char \<Rightarrow> bool" where
  "regex_special c = (c \<in> set (CHR 0x5C # ''^$|?*+()[]{}''))"

definition regex_covered :: "string \<Rightarrow> string \<Rightarrow> bool" where
  "regex_covered pattern options =
     (\<not> list_ex regex_special pattern \<and> (options = [] \<or> options = ''i''))"

definition regex_item :: "bool \<Rightarrow> char \<Rightarrow> char \<Rightarrow> bool" where
  "regex_item ci p x =
     (if p = CHR ''.'' then x \<noteq> CHR 0x0A
      else if ci then to_lower p = to_lower x
      else p = x)"

fun regex_here :: "bool \<Rightarrow> string \<Rightarrow> string \<Rightarrow> bool" where
  "regex_here ci [] s = True"
| "regex_here ci (p # ps) [] = False"
| "regex_here ci (p # ps) (x # xs) = (regex_item ci p x \<and> regex_here ci ps xs)"

fun regex_find :: "bool \<Rightarrow> string \<Rightarrow> string \<Rightarrow> bool" where
  "regex_find ci p [] = regex_here ci p []"
| "regex_find ci p (x # xs) = (regex_here ci p (x # xs) \<or> regex_find ci p xs)"

fun query_covered :: "query \<Rightarrow> bool" where
  "query_covered (Field_eq f v) = True"
| "query_covered (Field_regex f p opts) = regex_covered p opts"
| "query_covered (Or_query qs) = list_all query_covered qs"
| "query_covered (And_query qs) = list_all query_covered qs"

text \<open>
  Whether a document matches a filter. An equality condition holds when the document
  has the field with that value; a pattern condition holds when the field is text in
  which the pattern is found.
\<close>

fun matches :: "query \<Rightarrow> document \<Rightarrow> bool" where
  "matches (Field_eq f v) d = (d f = Some v)"
| "matches (Field_regex f p opts) d =
     (case d f of Some (VStr s) \<Rightarrow> regex_find (opts = ''i'') p s | _ \<Rightarrow> False)"
| "matches (Or_query qs) d = list_ex (\<lambda>q. matches q d) qs"
| "matches (And_query qs) d = list_all (\<lambda>q. matches q d) qs"

subsection \<open>Data access layer\<close>

text \<open>
  Modelled from the spec: \<^verbatim>\<open>get_documents\<close> of \<^verbatim>\<open>database.py\<close>, which is not among
  the sources. Section 4.1: it returns the raw stored records that match the filter, in
  the store's order, capped at \<^verbatim>\<open>limit\<close>, and the empty sequence when nothing
  matches. The result is \<open>None\<close> where the filter holds a pattern the model of the
  store does not cover: there the model says nothing.
\<close>

definition get_documents :: "store \<Rightarrow> string \<Rightarrow> query \<Rightarrow> int \<Rightarrow> (exn + document list) option" where
  "get_documents st c q limit =
     (if \<not> query_covered q then None
      else Some (case fault st of
             Some m \<Rightarrow> Inl (Exception m)
           | None \<Rightarrow> Inr (take (nat limit) (filter (matches q) (docs_of st c)))))"

text \<open>
  Modelled from the spec: \<^verbatim>\<open>create_document\<close> of \<^verbatim>\<open>database.py\<close>, which is not among
  the sources. Section 4.1: it inserts the validated record into the named collection and
  returns the newly assigned identifier as text; it fails when the store is unavailable.
  The store's order is taken to be the order of insertion: the new record comes last.
\<close>

definition create_document :: "store \<Rightarrow> string \<Rightarrow> product \<Rightarrow> (exn + string) \<times> store" where
  "create_document st c p =
     (case fault st of
        Some m \<Rightarrow> (Inl (Exception m), st)
      | None \<Rightarrow>
          (let oid = next_oid st;
               d = (product_fields p)(''_id'' \<mapsto> VObjectId oid)
           in (Inr (oid_text oid),
               st\<lparr>collections := AList.update c (docs_of st c @ [d]) (collections st),
                  next_oid := Suc oid\<rparr>)))"

subsection \<open>GET /api/products\<close>

fun category_cond :: "string option \<Rightarrow> query list" where
  "category_cond None = []"
| "category_cond (Some c) = (if c = [] then [] else [Field_eq ''category'' (VStr c)])"

fun search_cond :: "string option \<Rightarrow> query list" where
  "search_cond None = []"
| "search_cond (Some s) =
     (if s = [] then []
      else [Or_query [Field_regex ''title'' s ''i'', Field_regex ''description'' s ''i'']])"

text \<open>
  \<^verbatim>\<open>filter_dict\<close> (lines 35 to 44): the key \<^verbatim>\<open>category\<close> is set \<^verbatim>\<open>if category:\<close>, the
  key \<^verbatim>\<open>$or\<close> is set \<^verbatim>\<open>if search:\<close>, and a string is true when it is not empty.
\<close>

definition build_filter :: "string option \<Rightarrow> string option \<Rightarrow> query" where
  "build_filter cat search = And_query (category_cond cat @ search_cond search)"

text \<open>
  The handler. An exception of \<^verbatim>\<open>get_documents\<close> is not caught: it leaves the handler
  as it is.
\<close>

definition list_products ::
  "store option \<Rightarrow> string option \<Rightarrow> string option \<Rightarrow> int \<Rightarrow> (exn + document list) option" where
  "list_products db cat search limit =
     (case db of
        None \<Rightarrow> Some (Inl not_configured)
      | Some st \<Rightarrow>
          (case get_documents st ''product'' (build_filter cat search) limit of
             None \<Rightarrow> None
           | Some (Inl e) \<Rightarrow> Some (Inl e)
           | Some (Inr docs) \<Rightarrow> Some (Inr (map normalize_record docs))))"

text \<open>
  The response model of the route, \<^verbatim>\<open>response_model=List[ProductResponse]\<close> (line 30),
  with \<^verbatim>\<open>class ProductResponse(Product): id: Optional[str] = None\<close> (lines 21 and 22).
  The framework validates every record the handler returns against \<^verbatim>\<open>ProductResponse\<close>
  and sends the fields of the model, and only those. Modelled from the spec: the fields
  and constraints of \<^verbatim>\<open>Product\<close> (section 3), as for the payload above.

  A field passes, fails, or is left unsaid by the model: a value of another kind than the
  declared one is converted by the framework in some cases and refused in others.
\<close>

datatype check = Passes | Fails | Uncovered

definition worst :: "check list \<Rightarrow> check" where
  "worst cs = (if Fails \<in> set cs then Fails else if Uncovered \<in> set cs then Uncovered else Passes)"

text \<open>\<^verbatim>\<open>title\<close>: required, non-empty text.\<close>

fun required_text :: "val option \<Rightarrow> check" where
  "required_text None = Fails"
| "required_text (Some VNone) = Fails"
| "required_text (Some (VStr s)) = (if s = [] then Fails else Passes)"
| "required_text (Some v) = Uncovered"

text \<open>\<^verbatim>\<open>description\<close>, \<^verbatim>\<open>category\<close>, \<^verbatim>\<open>id\<close>: optional text.\<close>

fun optional_text :: "val option \<Rightarrow> check" where
  "optional_text None = Passes"
| "optional_text (Some VNone) = Passes"
| "optional_text (Some (VStr s)) = Passes"
| "optional_text (Some v) = Uncovered"

text \<open>\<^verbatim>\<open>price\<close>: a required number that is not negative.\<close>

fun required_price :: "val option \<Rightarrow> check" where
  "required_price None = Fails"
| "required_price (Some VNone) = Fails"
| "required_price (Some (VFloat f)) = (if 0 \<le> float_value f then Passes else Fails)"
| "required_price (Some v) = Uncovered"

text \<open>\<^verbatim>\<open>in_stock\<close>: a boolean, \<^verbatim>\<open>True\<close> when absent.\<close>

fun defaulted_bool :: "val option \<Rightarrow> check" where
  "defaulted_bool None = Passes"
| "defaulted_bool (Some VNone) = Fails"
| "defaulted_bool (Some (VBool b)) = Passes"
| "defaulted_bool (Some v) = Uncovered"

definition product_response :: "document \<Rightarrow> check" where
  "product_response r =
     worst [required_text (r ''title''),
            optional_text (r ''description''),
            required_price (r ''price''),
            optional_text (r ''category''),
            defaulted_bool (r ''in_stock''),
            optional_text (r ''id'')]"

definition field_or :: "val \<Rightarrow> val option \<Rightarrow> val" where
  "field_or v x = (case x of None \<Rightarrow> v | Some y \<Rightarrow> y)"

text \<open>What is sent for a record that passes: the six fields of \<^verbatim>\<open>ProductResponse\<close>, an
  absent one with its default.\<close>

definition response_view :: "document \<Rightarrow> document" where
  "response_view r =
     [''title'' \<mapsto> field_or VNone (r ''title''),
      ''description'' \<mapsto> field_or VNone (r ''description''),
      ''price'' \<mapsto> field_or VNone (r ''price''),
      ''category'' \<mapsto> field_or VNone (r ''category''),
      ''in_stock'' \<mapsto> field_or (VBool True) (r ''in_stock''),
      ''id'' \<mapsto> field_or VNone (r ''id'')]"

definition validate_response :: "document list \<Rightarrow> (exn + document list) option" where
  "validate_response rs =
     (case worst (map product_response rs) of
        Passes \<Rightarrow> Some (Inr (map response_view rs))
      | Fails \<Rightarrow> Some (Inl ResponseValidationError)
      | Uncovered \<Rightarrow> None)"

text \<open>
  The route: \<^verbatim>\<open>limit: int = Query(100, ge=1, le=200)\<close> (line 31). The framework
  rejects a request whose \<^verbatim>\<open>limit\<close> is outside the bounds before it calls the handler;
  an omitted \<^verbatim>\<open>limit\<close> is 100. What the handler returns goes through the response
  model; an exception of the handler goes out as it is.
\<close>

definition api_list_products ::
  "store option \<Rightarrow> string option \<Rightarrow> string option \<Rightarrow> int option \<Rightarrow> (exn + document list) option" where
  "api_list_products db cat search limit_param =
     (let limit = (case limit_param of None \<Rightarrow> 100 | Some n \<Rightarrow> n)
      in if 1 \<le> limit \<and> limit \<le> 200
         then (case list_products db cat search limit of
                 None \<Rightarrow> None
               | Some (Inl e) \<Rightarrow> Some (Inl e)
               | Some (Inr rs) \<Rightarrow> validate_response rs)
         else Some (Inl RequestValidationError))"

subsection \<open>POST /api/products\<close>

definition create_product :: "store option \<Rightarrow> product \<Rightarrow> (exn + document) \<times> store option" where
  "create_product db p =
     (case db of
        None \<Rightarrow> (Inl not_configured, None)
      | Some st \<Rightarrow>
          (case create_document st ''product'' p of
             (Inl e, st') \<Rightarrow> (Inl (HTTPException 500 (exn_text e)), Some st')
           | (Inr inserted_id, st') \<Rightarrow> (Inr [''id'' \<mapsto> VStr inserted_id], Some st')))"

text \<open>The route: the framework validates the body against \<^verbatim>\<open>Product\<close> before the handler runs.\<close>

definition api_create_product :: "store option \<Rightarrow> product \<Rightarrow> (exn + document) \<times> store option" where
  "api_create_product db p =
     (if valid_product p then create_product db p else (Inl RequestValidationError, db))"

subsection \<open>GET /api/categories\<close>

fun text_of :: "val \<Rightarrow> string option" where
  "text_of (VStr s) = Some s"
| "text_of _ = None"

text \<open>
  \<^verbatim>\<open>sorted\<close> on a list of strings: ascending, characters compared by their codes. A list
  that holds a value that is not a string is outside the model (\<open>None\<close>): Python sorts
  some of them and raises \<^verbatim>\<open>TypeError\<close> on others.
\<close>

definition py_sorted :: "val list \<Rightarrow> val list option" where
  "py_sorted vs =
     (if list_all (\<lambda>v. text_of v \<noteq> None) vs
      then Some (map VStr (sort (List.map_filter text_of vs)))
      else None)"

text \<open>
  The handler. Where it returns, it returns a list of strings, which the route's
  \<^verbatim>\<open>response_model=List[str]\<close> (line 74) sends as it is.
\<close>

definition list_categories :: "store option \<Rightarrow> (exn + val list) option" where
  "list_categories db =
     (case db of
        None \<Rightarrow> Some (Inl not_configured)
      | Some st \<Rightarrow>
          (case distinct_values st ''product'' ''category'' of
             Inl e \<Rightarrow> Some (Inl (HTTPException 500 (exn_text e)))
           | Inr categories \<Rightarrow>
               map_option Inr (py_sorted (filter truthy categories))))"

subsection \<open>POST /api/seed\<close>

definition sample_products :: "product list" where
  "sample_products =
     [\<lparr>title = ''Margherita Pizza'',
       description = Some ''Classic pizza with tomato, mozzarella, and basil'',
       price = PyFloat 9.99 ''9.99'', category = Some ''Pizza'', in_stock = True\<rparr>,
      \<lparr>title = ''Pepperoni Pizza'',
       description = Some ''Pepperoni, mozzarella, tomato sauce'',
       price = PyFloat 11.49 ''11.49'', category = Some ''Pizza'', in_stock = True\<rparr>,
      \<lparr>title = ''Veggie Burger'',
       description = Some ''Plant-based patty with fresh veggies'',
       price = PyFloat 8.99 ''8.99'', category = Some ''Burgers'', in_stock = True\<rparr>,
      \<lparr>title = ''Cheeseburger'',
       description = Some ''Beef patty, cheese, lettuce, tomato'',
       price = PyFloat 10.49 ''10.49'', category = Some ''Burgers'', in_stock = True\<rparr>,
      \<lparr>title = ''Chicken Caesar Salad'',
       description = Some ''Grilled chicken with romaine and Caesar dressing'',
       price = PyFloat 7.99 ''7.99'', category = Some ''Salads'', in_stock = True\<rparr>,
      \<lparr>title = ''Sushi Platter'',
       description = Some ''Assorted rolls and nigiri'',
       price = PyFloat 14.99 ''14.99'', category = Some ''Sushi'', in_stock = True\<rparr>,
      \<lparr>title = ''Pad Thai'',
       description = Some ''Stir-fried rice noodles with tamarind sauce'',
       price = PyFloat 12.49 ''12.49'', category = Some ''Asian'', in_stock = True\<rparr>,
      \<lparr>title = ''Chocolate Cake'',
       description = Some ''Rich and moist chocolate cake slice'',
       price = PyFloat 4.99 ''4.99'', category = Some ''Desserts'', in_stock = True\<rparr>]"

text \<open>The loop \<^verbatim>\<open>for p in sample_products: create_document("product", p)\<close>: it stops at the
  first exception.\<close>

fun create_all :: "store \<Rightarrow> string \<Rightarrow> product list \<Rightarrow> (exn + unit) \<times> store" where
  "create_all st c [] = (Inr (), st)"
| "create_all st c (p # ps) =
     (case create_document st c p of
        (Inl e, st') \<Rightarrow> (Inl e, st')
      | (Inr i, st') \<Rightarrow> create_all st' c ps)"

text \<open>The response \<^verbatim>\<open>{"inserted": inserted, "total": ...}\<close>.\<close>

record seed_report =
  inserted :: nat
  total :: nat

text \<open>The \<^verbatim>\<open>try\<close> block of \<^verbatim>\<open>seed_products\<close> (lines 102 to 108).\<close>

definition seed_body :: "store \<Rightarrow> (exn + seed_report) \<times> store" where
  "seed_body st =
     (case count_documents st ''product'' of
        Inl e \<Rightarrow> (Inl e, st)
      | Inr n \<Rightarrow>
          (case (if n = 0
                 then (case create_all st ''product'' sample_products of
                         (Inl e, st') \<Rightarrow> (Inl e, st')
                       | (Inr u, st') \<Rightarrow> (Inr (length sample_products), st'))
                 else (Inr 0, st)) of
             (Inl e, st') \<Rightarrow> (Inl e, st')
           | (Inr ins, st') \<Rightarrow>
               (case count_documents st' ''product'' of
                  Inl e \<Rightarrow> (Inl e, st')
                | Inr t \<Rightarrow> (Inr \<lparr>inserted = ins, total = t\<rparr>, st'))))"

definition seed_products :: "store option \<Rightarrow> (exn + seed_report) \<times> store option" where
  "seed_products db =
     (case db of
        None \<Rightarrow> (Inl not_configured, None)
      | Some st \<Rightarrow>
          (case seed_body st of
             (Inl e, st') \<Rightarrow> (Inl (HTTPException 500 (exn_text e)), Some st')
           | (Inr r, st') \<Rightarrow> (Inr r, Some st')))"

subsection \<open>GET /test and GET /\<close>

datatype json = JNull | JStr string | JList "string list"

type_synonym response = "string \<rightharpoonup> json"

definition check_mark :: string where
  "check_mark = [CHR 0xE2, CHR 0x9C, CHR 0x85]"

definition cross_mark :: string where
  "cross_mark = [CHR 0xE2, CHR 0x9D, CHR 0x8C]"

definition warning_sign :: string where
  "warning_sign = [CHR 0xE2, CHR 0x9A, CHR 0xA0, CHR 0xEF, CHR 0xB8, CHR 0x8F]"

text \<open>\<^verbatim>\<open>os.getenv(k)\<close> as a condition: the variable is set and not empty.\<close>

definition env_set :: "(string \<rightharpoonup> string) \<Rightarrow> string \<Rightarrow> bool" where
  "env_set env k = (case env k of None \<Rightarrow> False | Some v \<Rightarrow> v \<noteq> [])"

text \<open>The inner \<^verbatim>\<open>try\<close> (lines 130 to 135), on a handle that is not \<^verbatim>\<open>None\<close>.\<close>

definition test_collections :: "store \<Rightarrow> response \<Rightarrow> response" where
  "test_collections st response =
     (case list_collection_names st of
        Inr names \<Rightarrow>
          response(''collections'' \<mapsto> JList (take 10 names),
                   ''database'' \<mapsto> JStr (check_mark @ '' Connected & Working''))
      | Inl e \<Rightarrow>
          response(''database'' \<mapsto>
            JStr (warning_sign @ ''  Connected but Error: '' @ take 50 (exn_text e))))"

text \<open>The outer \<^verbatim>\<open>try\<close> block (lines 125 to 137). Nothing in it raises past the inner
  \<^verbatim>\<open>except\<close>.\<close>

definition test_body :: "store option \<Rightarrow> response \<Rightarrow> exn + response" where
  "test_body db response =
     (case db of
        Some st \<Rightarrow>
          Inr (test_collections st
                (response(''database'' \<mapsto> JStr (check_mark @ '' Available''),
                          ''database_url'' \<mapsto> JStr (check_mark @ '' Configured''),
                          ''database_name'' \<mapsto> JStr (db_name st),
                          ''connection_status'' \<mapsto> JStr ''Connected'')))
      | None \<Rightarrow>
          Inr (response(''database'' \<mapsto>
                 JStr (warning_sign @ ''  Available but not initialized''))))"

definition test_database :: "(string \<rightharpoonup> string) \<Rightarrow> store option \<Rightarrow> exn + response" where
  "test_database env db =
     (let response =
            [''backend'' \<mapsto> JStr (check_mark @ '' Running''),
             ''database'' \<mapsto> JStr (cross_mark @ '' Not Available''),
             ''database_url'' \<mapsto> JNull,
             ''database_name'' \<mapsto> JNull,
             ''connection_status'' \<mapsto> JStr ''Not Connected'',
             ''collections'' \<mapsto> JList []];
          response =
            (case test_body db response of
               Inr r \<Rightarrow> r
             | Inl e \<Rightarrow>
                 response(''database'' \<mapsto> JStr (cross_mark @ '' Error: '' @ take 50 (exn_text e))));
          response =
            response(''database_url'' \<mapsto>
              JStr (if env_set env ''DATABASE_URL'' then check_mark @ '' Set''
                    else cross_mark @ '' Not Set''));
          response =
            response(''database_name'' \<mapsto>
              JStr (if env_set env ''DATABASE_NAME'' then check_mark @ '' Set''
                    else cross_mark @ '' Not Set''))
      in Inr response)"

definition read_root :: response where
  "read_root = [''message'' \<mapsto> JStr ''Food Shop Backend Running'']"

subsection \<open>Notions of the specification, and sample data\<close>



text \<open>
  The search condition of the filter, on one document: the pattern \<open>s\<close> is found, letter
  case apart, in the title or in the description, where that field is text.
\<close>

definition search_hit :: "string \<Rightarrow> document \<Rightarrow> bool" where
  "search_hit s d =
     ((case d ''title'' of Some (VStr t) \<Rightarrow> regex_find True s t | _ \<Rightarrow> False) \<or>
      (case d ''description'' of Some (VStr t) \<Rightarrow> regex_find True s t | _ \<Rightarrow> False))"

text \<open>The search condition as the request gives it: none when \<^verbatim>\<open>search\<close> is absent or
  empty.\<close>

definition search_holds :: "string option \<Rightarrow> document \<Rightarrow> bool" where
  "search_holds s d = (case s of None \<Rightarrow> True | Some t \<Rightarrow> t = [] \<or> search_hit t d)"

text \<open>
  A stored record that has the shape of a product: each field of \<^verbatim>\<open>Product\<close> holds a
  value its declaration accepts.
\<close>

definition product_record :: "document \<Rightarrow> bool" where
  "product_record d =
     (required_text (d ''title'') = Passes
      \<and> optional_text (d ''description'') = Passes
      \<and> required_price (d ''price'') = Passes
      \<and> optional_text (d ''category'') = Passes
      \<and> defaulted_bool (d ''in_stock'') = Passes)"


text \<open>A stored document without the identifier the store gave it.\<close>

definition strip_id :: "document \<Rightarrow> document" where
  "strip_id d = d(''_id'' := None)"

text \<open>A category value as a product has it: absent, null or text.\<close>

definition category_is_text :: "document \<Rightarrow> bool" where
  "category_is_text d =
     (case d ''category'' of None \<Rightarrow> True | Some VNone \<Rightarrow> True | Some (VStr c) \<Rightarrow> True
      | Some _ \<Rightarrow> False)"

text \<open>Two stored products, a store that holds them, an empty store, and a payload.\<close>

definition pad_thai_doc :: document where
  "pad_thai_doc =
     [''_id'' \<mapsto> VObjectId 7,
      ''title'' \<mapsto> VStr ''Pad Thai'',
      ''description'' \<mapsto> VNone,
      ''price'' \<mapsto> VFloat (PyFloat 12.49 ''12.49''),
      ''category'' \<mapsto> VStr ''Asian'',
      ''in_stock'' \<mapsto> VBool True,
      ''created_at'' \<mapsto> VDatetime ''2024-05-01 10:00:00'']"

definition pizza_doc :: document where
  "pizza_doc =
     [''_id'' \<mapsto> VObjectId 8,
      ''title'' \<mapsto> VStr ''Margherita Pizza'',
      ''description'' \<mapsto> VStr ''Classic pizza with tomato'',
      ''price'' \<mapsto> VFloat (PyFloat 9.99 ''9.99''),
      ''category'' \<mapsto> VStr ''Pizza'',
      ''in_stock'' \<mapsto> VBool True]"

definition demo_store :: store where
  "demo_store =
     \<lparr>db_name = ''foodshop'',
      collections = [(''product'', [pad_thai_doc, pizza_doc])],
      next_oid = 9,
      fault = None\<rparr>"

definition empty_store :: store where
  "empty_store = \<lparr>db_name = ''foodshop'', collections = [], next_oid = 0, fault = None\<rparr>"

definition calzone :: product where
  "calzone =
     \<lparr>title = ''Calzone'', description = None, price = PyFloat 10.5 ''10.5'',
      category = Some ''Pizza'', in_stock = True\<rparr>"

text \<open>A store with a product whose category is the empty string.\<close>

definition plain_doc :: document where
  "plain_doc = [''_id'' \<mapsto> VObjectId 9, ''title'' \<mapsto> VStr ''Water'', ''category'' \<mapsto> VStr []]"

definition mixed_store :: store where
  "mixed_store =
     \<lparr>db_name = ''foodshop'',
      collections = [(''product'', [plain_doc, pizza_doc])],
      next_oid = 10,
      fault = None\<rparr>"

text \<open>A store whose product collection holds 100 records, and one with repeated and
  empty categories.\<close>

definition old_doc :: "nat \<Rightarrow> document" where
  "old_doc k = pizza_doc(''_id'' \<mapsto> VObjectId k)"

definition full_store :: store where
  "full_store =
     \<lparr>db_name = ''foodshop'',
      collections = [(''product'', map old_doc [0..<100])],
      next_oid = 100,
      fault = None\<rparr>"

definition menu_store :: store where
  "menu_store =
     \<lparr>db_name = ''foodshop'',
      collections = [(''product'', [pizza_doc, plain_doc, pad_thai_doc, old_doc 3])],
      next_oid = 10,
      fault = None\<rparr>"

text \<open>The record \<open>r\<close> has the five fields of the payload \<open>p\<close>, with the payload's values.\<close>

definition same_fields :: "product \<Rightarrow> document \<Rightarrow> bool" where
  "same_fields p r =
     (r ''title'' = Some (VStr (title p))
      \<and> r ''description'' = Some (opt_text (description p))
      \<and> r ''price'' = Some (VFloat (price p))
      \<and> r ''category'' = Some (opt_text (category p))
      \<and> r ''in_stock'' = Some (VBool (in_stock p)))"

section \<open>Properties\<close>

subsection \<open>The store and the filters\<close>

lemma docs_of_update:
  "docs_of (st\<lparr>collections := AList.update c ds (collections st), next_oid := k\<rparr>) c'
     = (if c' = c then ds else docs_of st c')"
  by (simp add: docs_of_def update_conv')

lemma create_document_ok:
  "fault st = None \<Longrightarrow>
   create_document st c p =
     (Inr (oid_text (next_oid st)),
      st\<lparr>collections :=
           AList.update c (docs_of st c @ [(product_fields p)(''_id'' \<mapsto> VObjectId (next_oid st))])
             (collections st),
         next_oid := Suc (next_oid st)\<rparr>)"
  by (simp add: create_document_def Let_def)

lemma product_fields_no_id: "product_fields p ''_id'' = None"
  by (simp add: product_fields_def)

lemma strip_id_new: "strip_id ((product_fields p)(''_id'' \<mapsto> v)) = product_fields p"
  by (simp add: strip_id_def product_fields_no_id fun_upd_idem)

lemma length_hex_digits: "length (hex_digits k n) = k"
  by (induction k arbitrary: n) auto

lemma oid_text_not_empty: "oid_text n \<noteq> []"
  using length_hex_digits[of 24 n] by (auto simp: oid_text_def)



lemma covered_build_filter:
  "query_covered (build_filter c s) =
     (case s of None \<Rightarrow> True | Some t \<Rightarrow> \<not> list_ex regex_special t)"
  by (cases c; cases s) (auto simp: build_filter_def regex_covered_def)

lemma matches_build_filter:
  "matches (build_filter c s) d =
     ((case c of None \<Rightarrow> True | Some x \<Rightarrow> x = [] \<or> d ''category'' = Some (VStr x)) \<and>
      (case s of None \<Rightarrow> True
       | Some t \<Rightarrow> t = [] \<or> matches (Field_regex ''title'' t ''i'') d
                        \<or> matches (Field_regex ''description'' t ''i'') d))"
  by (cases c; cases s) (auto simp: build_filter_def)


lemma list_products_ok:
  "fault st = None \<Longrightarrow> query_covered (build_filter c s) \<Longrightarrow>
   list_products (Some st) c s n =
     Some (Inr (map normalize_record
       (take (nat n) (filter (matches (build_filter c s)) (docs_of st ''product'')))))"
  by (simp add: list_products_def get_documents_def)

lemma list_products_Inr:
  "list_products db c s n = Some (Inr rs) \<Longrightarrow>
   \<exists>st. db = Some st \<and> fault st = None \<and> query_covered (build_filter c s) \<and>
     rs = map normalize_record
       (take (nat n) (filter (matches (build_filter c s)) (docs_of st ''product'')))"
  by (auto simp: list_products_def get_documents_def not_configured_def
      split: option.splits sum.splits if_splits)

lemma normalize_keeps:
  "k \<notin> {''_id'', ''id'', ''created_at'', ''updated_at''} \<Longrightarrow> normalize_record d k = d k"
  by (simp add: normalize_record_def stringify_key_def Let_def split: option.splits)

lemma demo_docs: "docs_of demo_store ''product'' = [pad_thai_doc, pizza_doc]"
  by (simp add: docs_of_def demo_store_def)

lemma demo_fault: "fault demo_store = None"
  by (simp add: demo_store_def)

lemma create_all_ok:
  "fault st = None \<Longrightarrow>
   \<exists>st'. create_all st c ps = (Inr (), st') \<and> fault st' = None
      \<and> length (docs_of st' c) = length (docs_of st c) + length ps
      \<and> map strip_id (docs_of st' c) = map strip_id (docs_of st c) @ map product_fields ps"
proof (induction ps arbitrary: st)
  case Nil
  then show ?case by simp
next
  case (Cons p ps)
  let ?st1 = "st\<lparr>collections :=
           AList.update c (docs_of st c @ [(product_fields p)(''_id'' \<mapsto> VObjectId (next_oid st))])
             (collections st),
         next_oid := Suc (next_oid st)\<rparr>"
  have f1: "fault ?st1 = None" using Cons.prems by simp
  from Cons.IH[OF f1] obtain st' where
    st': "create_all ?st1 c ps = (Inr (), st')" "fault st' = None"
      "length (docs_of st' c) = length (docs_of ?st1 c) + length ps"
      "map strip_id (docs_of st' c) = map strip_id (docs_of ?st1 c) @ map product_fields ps"
    by blast
  have "create_all st c (p # ps) = (Inr (), st')"
    using Cons.prems st'(1) by (simp add: create_document_ok)
  moreover have "length (docs_of st' c) = length (docs_of st c) + length (p # ps)"
    using st'(3) by (simp add: docs_of_update)
  moreover have "map strip_id (docs_of st' c) = map strip_id (docs_of st c) @ map product_fields (p # ps)"
    using st'(4) by (simp add: docs_of_update strip_id_new)
  ultimately show ?case using st'(2) by blast
qed

lemma length_sample_products: "length sample_products = 8"
  by (simp add: sample_products_def)

lemma seed_empty:
  assumes "fault st = None" "docs_of st ''product'' = []"
  shows "\<exists>st'. seed_products (Some st) = (Inr \<lparr>inserted = 8, total = 8\<rparr>, Some st')
           \<and> fault st' = None
           \<and> length (docs_of st' ''product'') = 8
           \<and> map strip_id (docs_of st' ''product'') = map product_fields sample_products"
proof -
  from create_all_ok[OF assms(1), of "''product''" sample_products] obtain st' where
    st': "create_all st ''product'' sample_products = (Inr (), st')" "fault st' = None"
      "length (docs_of st' ''product'') = length (docs_of st ''product'') + length sample_products"
      "map strip_id (docs_of st' ''product'') =
         map strip_id (docs_of st ''product'') @ map product_fields sample_products"
    by blast
  have "seed_body st = (Inr \<lparr>inserted = 8, total = 8\<rparr>, st')"
    using assms st' by (simp add: seed_body_def count_documents_def length_sample_products)
  then have "seed_products (Some st) = (Inr \<lparr>inserted = 8, total = 8\<rparr>, Some st')"
    by (simp add: seed_products_def)
  then show ?thesis using st' assms(2) by (simp add: length_sample_products)
qed

lemma seed_nonempty:
  assumes "fault st = None" "docs_of st ''product'' \<noteq> []"
  shows "seed_products (Some st) =
           (Inr \<lparr>inserted = 0, total = length (docs_of st ''product'')\<rparr>, Some st)"
  using assms by (simp add: seed_products_def seed_body_def count_documents_def)



lemma same_fields_new:
  "same_fields p (normalize_record ((product_fields p)(''_id'' \<mapsto> v)))"
  by (simp add: same_fields_def normalize_keeps product_fields_def)

lemma normalize_id: "normalize_record d ''id'' =
    Some (VStr (py_str (case d ''_id'' of None \<Rightarrow> VStr [] | Some v \<Rightarrow> v)))"
  by (simp add: normalize_record_def stringify_key_def Let_def split: option.splits)

lemma all_match: "matches (build_filter None None) d"
  by (simp add: build_filter_def)

lemma set_map_filter: "set (List.map_filter f xs) = {y. \<exists>x \<in> set xs. f x = Some y}"
proof (induction xs)
  case Nil
  then show ?case by (simp add: List.map_filter_simps)
next
  case (Cons x xs)
  then show ?case
    by (cases "f x") (auto simp: List.map_filter_simps)
qed

lemma text_of_Some: "text_of w = Some s \<longleftrightarrow> w = VStr s"
  by (cases w) auto

lemma set_map_filter_text: "set (List.map_filter text_of vs) = {s. VStr s \<in> set vs}"
  by (simp add: set_map_filter text_of_Some)

lemma distinct_map_filter_text:
  "distinct vs \<Longrightarrow> distinct (List.map_filter text_of vs)"
proof (induction vs)
  case Nil
  then show ?case by (simp add: List.map_filter_simps)
next
  case (Cons v vs)
  then show ?case
    by (cases v) (simp_all add: List.map_filter_simps set_map_filter_text)
qed

lemma category_values:
  "set (List.map_filter (\<lambda>d. d ''category'') ds) = {v. \<exists>d \<in> set ds. d ''category'' = Some v}"
  by (simp add: set_map_filter)

lemma worst_passes: "list_all (\<lambda>c. c = Passes) cs \<Longrightarrow> worst cs = Passes"
  by (auto simp: worst_def list_all_iff)

lemma normalize_id_text: "optional_text (normalize_record d ''id'') = Passes"
  by (simp add: normalize_id)

lemma product_record_response:
  "product_record d \<Longrightarrow> product_response (normalize_record d) = Passes"
  by (simp add: product_record_def product_response_def worst_def normalize_keeps
      normalize_id_text)

lemma validate_response_ok:
  assumes "list_all product_record ds"
  shows "validate_response (map normalize_record ds)
           = Some (Inr (map response_view (map normalize_record ds)))"
proof -
  have "list_all (\<lambda>c. c = Passes) (map product_response (map normalize_record ds))"
    using assms by (simp add: list_all_iff product_record_response)
  then have "worst (map product_response (map normalize_record ds)) = Passes"
    by (rule worst_passes)
  then show ?thesis
    by (simp add: validate_response_def)
qed

lemma validate_response_Inr:
  "validate_response rs = Some (Inr out) \<Longrightarrow> out = map response_view rs"
  by (auto simp: validate_response_def split: check.splits)

lemma api_list_products_Inr:
  assumes "api_list_products db c s l = Some (Inr out)"
  shows "\<exists>rs. list_products db c s (case l of None \<Rightarrow> 100 | Some n \<Rightarrow> n) = Some (Inr rs)
           \<and> out = map response_view rs
           \<and> 1 \<le> (case l of None \<Rightarrow> 100 | Some n \<Rightarrow> n)
           \<and> (case l of None \<Rightarrow> 100 | Some n \<Rightarrow> n) \<le> 200"
  using assms
  by (auto simp: api_list_products_def Let_def dest: validate_response_Inr
      split: if_splits option.splits sum.splits)

lemma api_list_products_ok:
  assumes "fault st = None" "query_covered (build_filter c s)"
    "list_all product_record (docs_of st ''product'')"
    "1 \<le> (case l of None \<Rightarrow> 100 | Some n \<Rightarrow> n)" "(case l of None \<Rightarrow> 100 | Some n \<Rightarrow> n) \<le> 200"
  shows "api_list_products (Some st) c s l =
     Some (Inr (map response_view (map normalize_record
       (take (nat (case l of None \<Rightarrow> 100 | Some n \<Rightarrow> n))
          (filter (matches (build_filter c s)) (docs_of st ''product''))))))"
proof -
  let ?n = "case l of None \<Rightarrow> 100 | Some n \<Rightarrow> n"
  let ?ds = "take (nat ?n) (filter (matches (build_filter c s)) (docs_of st ''product''))"
  have "list_all product_record ?ds"
    using assms(3) by (auto simp: list_all_iff dest!: in_set_takeD)
  from validate_response_ok[OF this] list_products_ok[OF assms(1,2), of ?n] assms(4,5)
  show ?thesis
    by (simp add: api_list_products_def Let_def)
qed

lemma new_record_ok:
  "valid_product p \<Longrightarrow> product_record ((product_fields p)(''_id'' \<mapsto> v))"
  by (cases "description p"; cases "category p")
     (simp_all add: product_record_def product_fields_def valid_product_def)

lemma response_view_keeps:
  "response_view r ''title'' = Some (field_or VNone (r ''title''))"
  "response_view r ''description'' = Some (field_or VNone (r ''description''))"
  "response_view r ''price'' = Some (field_or VNone (r ''price''))"
  "response_view r ''category'' = Some (field_or VNone (r ''category''))"
  "response_view r ''in_stock'' = Some (field_or (VBool True) (r ''in_stock''))"
  "response_view r ''id'' = Some (field_or VNone (r ''id''))"
  by (simp_all add: response_view_def)

lemma same_fields_response:
  "same_fields p (response_view (normalize_record ((product_fields p)(''_id'' \<mapsto> v))))"
  by (simp add: same_fields_def response_view_keeps normalize_keeps product_fields_def field_or_def)

lemma response_id_new:
  "response_view (normalize_record ((product_fields p)(''_id'' \<mapsto> VObjectId k))) ''id''
     = Some (VStr (oid_text k))"
  by (simp add: response_view_keeps normalize_id field_or_def)

lemma create_then_get:
  assumes "fault st = None" "valid_product p" "list_all product_record (docs_of st ''product'')"
  shows "\<exists>st'. api_create_product (Some st) p
             = (Inr [''id'' \<mapsto> VStr (oid_text (next_oid st))], Some st')
         \<and> api_list_products (Some st') None None None
             = Some (Inr (map response_view (map normalize_record (take 100
                 (docs_of st ''product'' @
                   [(product_fields p)(''_id'' \<mapsto> VObjectId (next_oid st))])))))"
proof -
  let ?d = "(product_fields p)(''_id'' \<mapsto> VObjectId (next_oid st))"
  let ?st' = "st\<lparr>collections :=
           AList.update ''product'' (docs_of st ''product'' @ [?d]) (collections st),
         next_oid := Suc (next_oid st)\<rparr>"
  have post: "api_create_product (Some st) p
      = (Inr [''id'' \<mapsto> VStr (oid_text (next_oid st))], Some ?st')"
    using assms(1,2) by (simp add: api_create_product_def create_product_def create_document_ok)
  have f': "fault ?st' = None"
    using assms(1) by simp
  have d': "docs_of ?st' ''product'' = docs_of st ''product'' @ [?d]"
    by (simp add: docs_of_update)
  have c: "query_covered (build_filter None None)"
    by (simp add: covered_build_filter)
  have ok: "list_all product_record (docs_of ?st' ''product'')"
    using assms(3) new_record_ok[OF assms(2)] by (simp add: d')
  have m: "filter (matches (build_filter None None)) xs = xs" for xs
    by (simp add: all_match)
  have a: "api_list_products (Some ?st') None None None
      = Some (Inr (map response_view (map normalize_record
          (take (nat 100) (filter (matches (build_filter None None))
             (docs_of ?st' ''product''))))))"
    using api_list_products_ok[OF f' c ok, of None] by simp
  have b: "take (nat 100) (filter (matches (build_filter None None)) (docs_of ?st' ''product''))
      = take 100 (docs_of st ''product'' @ [?d])"
    unfolding m d' by simp
  have "api_list_products (Some ?st') None None None
      = Some (Inr (map response_view (map normalize_record
          (take 100 (docs_of st ''product'' @ [?d])))))"
    unfolding a b ..
  with post show ?thesis by blast
qed

lemma matches_category_search:
  "c \<noteq> [] \<Longrightarrow>
   matches (build_filter (Some c) s) d = (d ''category'' = Some (VStr c) \<and> search_holds s d)"
  by (cases s) (auto simp: matches_build_filter search_holds_def search_hit_def
      split: option.splits val.splits)

lemma demo_records: "list_all product_record (docs_of demo_store ''product'')"
  by (simp add: demo_docs product_record_def pad_thai_doc_def pizza_doc_def)

subsection \<open>Response normalisation\<close>

text \<open>
  C8. For every record \<open>d\<close> that \<^verbatim>\<open>GET /api/products\<close> gets from the store, the record it
  returns is \<open>normalize_record d\<close>. That record has no \<^verbatim>\<open>_id\<close>; its \<^verbatim>\<open>id\<close> is the text
  of the \<^verbatim>\<open>_id\<close> of \<open>d\<close> (of the empty string when \<open>d\<close> has none); \<^verbatim>\<open>created_at\<close> and
  \<^verbatim>\<open>updated_at\<close> are replaced by their text when \<open>d\<close> has them, and stay absent
  otherwise; every other field is as in \<open>d\<close>.
\<close>

theorem normalization_frame:
  "(get_documents st ''product'' (build_filter c s) n = Some (Inr docs) \<longrightarrow>
      list_products (Some st) c s n = Some (Inr (map normalize_record docs)))
   \<and> normalize_record d ''_id'' = None
   \<and> normalize_record d ''id'' =
       Some (VStr (py_str (case d ''_id'' of None \<Rightarrow> VStr [] | Some v \<Rightarrow> v)))
   \<and> normalize_record d ''created_at'' = map_option (\<lambda>v. VStr (py_str v)) (d ''created_at'')
   \<and> normalize_record d ''updated_at'' = map_option (\<lambda>v. VStr (py_str v)) (d ''updated_at'')
   \<and> (\<forall>k. k \<notin> {''_id'', ''id'', ''created_at'', ''updated_at''} \<longrightarrow>
         normalize_record d k = d k)"
proof -
  have "get_documents st ''product'' (build_filter c s) n = Some (Inr docs) \<longrightarrow>
      list_products (Some st) c s n = Some (Inr (map normalize_record docs))"
    by (simp add: list_products_def)
  moreover have "normalize_record d ''_id'' = None"
    by (simp add: normalize_record_def stringify_key_def Let_def split: option.splits)
  moreover have "normalize_record d ''id'' =
       Some (VStr (py_str (case d ''_id'' of None \<Rightarrow> VStr [] | Some v \<Rightarrow> v)))"
    by (simp add: normalize_record_def stringify_key_def Let_def split: option.splits)
  moreover have "normalize_record d ''created_at'' =
       map_option (\<lambda>v. VStr (py_str v)) (d ''created_at'')"
    by (simp add: normalize_record_def stringify_key_def Let_def split: option.splits)
  moreover have "normalize_record d ''updated_at'' =
       map_option (\<lambda>v. VStr (py_str v)) (d ''updated_at'')"
    by (simp add: normalize_record_def stringify_key_def Let_def split: option.splits)
  ultimately show ?thesis
    using normalize_keeps by blast
qed

theorem normalization_frame_witness:
  "get_documents demo_store ''product'' (build_filter None None) 1 = Some (Inr [pad_thai_doc])
   \<and> list_products (Some demo_store) None None 1 = Some (Inr [normalize_record pad_thai_doc])
   \<and> normalize_record pad_thai_doc ''_id'' = None
   \<and> normalize_record pad_thai_doc ''id'' = Some (VStr ''000000000000000000000007'')
   \<and> normalize_record pad_thai_doc ''created_at'' = Some (VStr ''2024-05-01 10:00:00'')
   \<and> normalize_record pad_thai_doc ''updated_at'' = None
   \<and> ''title'' \<notin> {''_id'', ''id'', ''created_at'', ''updated_at''}
   \<and> normalize_record pad_thai_doc ''title'' = Some (VStr ''Pad Thai'')"
proof -
  have g: "get_documents demo_store ''product'' (build_filter None None) 1 = Some (Inr [pad_thai_doc])"
    by (simp add: get_documents_def build_filter_def demo_docs demo_fault)
  have k: "''title'' \<notin> {''_id'', ''id'', ''created_at'', ''updated_at''}"
    by simp
  have i: "oid_text 7 = ''000000000000000000000007''"
    by code_simp
  note n = normalization_frame[of demo_store None None 1 "[pad_thai_doc]" pad_thai_doc]
  from n g have "list_products (Some demo_store) None None 1 = Some (Inr [normalize_record pad_thai_doc])"
    by simp
  moreover from n have "normalize_record pad_thai_doc ''_id'' = None"
    by blast
  moreover from n have "normalize_record pad_thai_doc ''id'' = Some (VStr ''000000000000000000000007'')"
    by (simp add: pad_thai_doc_def i)
  moreover from n have "normalize_record pad_thai_doc ''created_at'' = Some (VStr ''2024-05-01 10:00:00'')"
    by (simp add: pad_thai_doc_def)
  moreover from n have "normalize_record pad_thai_doc ''updated_at'' = None"
    by (simp add: pad_thai_doc_def)
  moreover from n k have "normalize_record pad_thai_doc ''title'' = Some (VStr ''Pad Thai'')"
    by (simp add: pad_thai_doc_def)
  ultimately show ?thesis
    using g k by blast
qed

subsection \<open>The limit\<close>

text \<open>
  C4. For every integer \<open>N\<close> from 1 to 200, \<^verbatim>\<open>GET /api/products?limit=N\<close> returns at most
  \<open>N\<close> records. For every \<open>N\<close> outside that range the request is rejected with the
  status 422, whatever the connection handle is: the store is not consulted. Without
  \<^verbatim>\<open>limit\<close>, at most 100 records are returned. On a reachable store whose records have
  the shape of a product, with a search pattern the model covers, the request does return
  a list.
\<close>

theorem limit_bounds:
  "(1 \<le> N \<and> N \<le> 200 \<and> api_list_products db c s (Some N) = Some (Inr rs) \<longrightarrow>
      int (length rs) \<le> N)
   \<and> (N < 1 \<or> 200 < N \<longrightarrow>
        api_list_products db c s (Some N) = Some (Inl RequestValidationError))
   \<and> status_of RequestValidationError = 422
   \<and> (api_list_products db c s None = Some (Inr rs') \<longrightarrow> length rs' \<le> 100)
   \<and> (1 \<le> N \<and> N \<le> 200 \<and> fault st = None \<and> query_covered (build_filter c s)
        \<and> list_all product_record (docs_of st ''product'') \<longrightarrow>
        (\<exists>rs. api_list_products (Some st) c s (Some N) = Some (Inr rs) \<and> int (length rs) \<le> N))
   \<and> (fault st = None \<and> query_covered (build_filter c s)
        \<and> list_all product_record (docs_of st ''product'') \<longrightarrow>
        (\<exists>rs. api_list_products (Some st) c s None = Some (Inr rs) \<and> length rs \<le> 100))"
proof -
  have bound: "int (length out) \<le> (case l of None \<Rightarrow> 100 | Some n \<Rightarrow> n)"
    if "api_list_products db c s l = Some (Inr out)" for db l out
  proof -
    from api_list_products_Inr[OF that] obtain rs where
      rs: "list_products db c s (case l of None \<Rightarrow> 100 | Some n \<Rightarrow> n) = Some (Inr rs)"
      and out: "out = map response_view rs"
      and lo: "1 \<le> (case l of None \<Rightarrow> 100 | Some n \<Rightarrow> n)"
      by blast
    from list_products_Inr[OF rs] lo show ?thesis
      unfolding out by auto
  qed
  have one: "1 \<le> N \<and> N \<le> 200 \<and> api_list_products db c s (Some N) = Some (Inr rs) \<longrightarrow>
      int (length rs) \<le> N"
    using bound[of db "Some N" rs] by simp
  have two: "N < 1 \<or> 200 < N \<longrightarrow>
        api_list_products db c s (Some N) = Some (Inl RequestValidationError)"
    by (auto simp: api_list_products_def)
  have four: "api_list_products db c s None = Some (Inr rs') \<longrightarrow> length rs' \<le> 100"
    using bound[of db None rs'] by auto
  have five: "1 \<le> N \<and> N \<le> 200 \<and> fault st = None \<and> query_covered (build_filter c s)
        \<and> list_all product_record (docs_of st ''product'') \<longrightarrow>
        (\<exists>rs. api_list_products (Some st) c s (Some N) = Some (Inr rs) \<and> int (length rs) \<le> N)"
  proof
    assume a: "1 \<le> N \<and> N \<le> 200 \<and> fault st = None \<and> query_covered (build_filter c s)
        \<and> list_all product_record (docs_of st ''product'')"
    then have "\<exists>rs. api_list_products (Some st) c s (Some N) = Some (Inr rs)"
      using api_list_products_ok[of st c s "Some N"] by simp
    then obtain rs where r: "api_list_products (Some st) c s (Some N) = Some (Inr rs)" ..
    from bound[OF r] r
    show "\<exists>rs. api_list_products (Some st) c s (Some N) = Some (Inr rs) \<and> int (length rs) \<le> N"
      by auto
  qed
  have six: "fault st = None \<and> query_covered (build_filter c s)
        \<and> list_all product_record (docs_of st ''product'') \<longrightarrow>
        (\<exists>rs. api_list_products (Some st) c s None = Some (Inr rs) \<and> length rs \<le> 100)"
  proof
    assume a: "fault st = None \<and> query_covered (build_filter c s)
        \<and> list_all product_record (docs_of st ''product'')"
    then have "\<exists>rs. api_list_products (Some st) c s None = Some (Inr rs)"
      using api_list_products_ok[of st c s None] by simp
    then obtain rs where r: "api_list_products (Some st) c s None = Some (Inr rs)" ..
    from bound[OF r] r
    show "\<exists>rs. api_list_products (Some st) c s None = Some (Inr rs) \<and> length rs \<le> 100"
      by auto
  qed
  from one two four five six show ?thesis
    by simp
qed

theorem limit_bounds_witness:
  "(1::int) \<le> 1 \<and> (1::int) \<le> 200
   \<and> api_list_products (Some demo_store) None None (Some 1)
        = Some (Inr [response_view (normalize_record pad_thai_doc)])
   \<and> int (length [response_view (normalize_record pad_thai_doc)]) \<le> 1
   \<and> ((0::int) < 1 \<or> (200::int) < 0)
   \<and> api_list_products (Some demo_store) None None (Some 0) = Some (Inl RequestValidationError)
   \<and> api_list_products (Some demo_store) None None None
        = Some (Inr [response_view (normalize_record pad_thai_doc),
                     response_view (normalize_record pizza_doc)])
   \<and> length [response_view (normalize_record pad_thai_doc),
              response_view (normalize_record pizza_doc)] \<le> 100
   \<and> fault demo_store = None \<and> query_covered (build_filter None None)
   \<and> list_all product_record (docs_of demo_store ''product'')
   \<and> (\<exists>rs. api_list_products (Some demo_store) None None (Some 1) = Some (Inr rs)
          \<and> int (length rs) \<le> 1)
   \<and> (\<exists>rs. api_list_products (Some demo_store) None None None = Some (Inr rs)
          \<and> length rs \<le> 100)
   \<and> response_view (normalize_record pad_thai_doc) ''created_at'' = None"
proof -
  have c: "query_covered (build_filter None None)"
    by (simp add: build_filter_def)
  have a1: "api_list_products (Some demo_store) None None (Some 1)
        = Some (Inr [response_view (normalize_record pad_thai_doc)])"
    using api_list_products_ok[OF demo_fault c demo_records, of "Some 1"]
    by (simp add: demo_docs all_match)
  have a2: "api_list_products (Some demo_store) None None None
        = Some (Inr [response_view (normalize_record pad_thai_doc),
                     response_view (normalize_record pizza_doc)])"
    using api_list_products_ok[OF demo_fault c demo_records, of None]
    by (simp add: demo_docs all_match)
  have v: "response_view (normalize_record pad_thai_doc) ''created_at'' = None"
    by (simp add: response_view_def)
  note t1 = limit_bounds[where N = 1 and db = "Some demo_store" and c = None and s = None
      and rs = "[response_view (normalize_record pad_thai_doc)]"
      and rs' = "[response_view (normalize_record pad_thai_doc),
                  response_view (normalize_record pizza_doc)]"
      and st = demo_store]
  note t0 = limit_bounds[where N = 0 and db = "Some demo_store" and c = None and s = None]
  from t0 have "api_list_products (Some demo_store) None None (Some 0)
      = Some (Inl RequestValidationError)"
    by simp
  with t1 a1 a2 c demo_fault demo_records v show ?thesis
    by simp
qed

subsection \<open>No connection handle\<close>

text \<open>
  C5. When the connection handle is \<^verbatim>\<open>None\<close>, each of the four handlers that need the
  store (\<^verbatim>\<open>list_products\<close>, \<^verbatim>\<open>create_product\<close>, \<^verbatim>\<open>list_categories\<close>,
  \<^verbatim>\<open>seed_products\<close>) raises the same \<^verbatim>\<open>HTTPException\<close>, whatever its arguments: the
  status is 500, the one the program uses to say that the store is unavailable, and the
  detail is the fixed text "Database not configured". The exception is the handler's
  result; the handle stays \<^verbatim>\<open>None\<close>, and no operation of the store is reached.
\<close>

theorem unconfigured_store:
  "list_products None c s n = Some (Inl not_configured)
   \<and> api_list_products None c s None = Some (Inl not_configured)
   \<and> create_product None p = (Inl not_configured, None)
   \<and> list_categories None = Some (Inl not_configured)
   \<and> seed_products None = (Inl not_configured, None)
   \<and> not_configured = HTTPException 500 ''Database not configured''
   \<and> status_of not_configured = 500"
  by (simp add: list_products_def api_list_products_def create_product_def list_categories_def
      seed_products_def not_configured_def)

subsection \<open>Category and search\<close>

text \<open>
  C10. An empty \<^verbatim>\<open>category\<close> parameter adds no condition to the filter: the request is
  the request without the parameter, for every store, search and limit. On a reachable
  store and without a search it returns the first records of the collection, whatever
  their category.
\<close>

theorem empty_category_ignored:
  "build_filter (Some []) s = build_filter None s
   \<and> list_products db (Some []) s n = list_products db None s n
   \<and> api_list_products db (Some []) s l = api_list_products db None s l
   \<and> (fault st = None \<and> 1 \<le> n \<longrightarrow>
        list_products (Some st) (Some []) None n
          = Some (Inr (map normalize_record (take (nat n) (docs_of st ''product'')))))"
proof -
  have bf: "build_filter (Some []) s = build_filter None s" for s
    by (simp add: build_filter_def)
  have lp: "list_products db (Some []) s k = list_products db None s k" for k db
    unfolding list_products_def bf ..
  have "fault st = None \<and> 1 \<le> n \<longrightarrow>
        list_products (Some st) (Some []) None n
          = Some (Inr (map normalize_record (take (nat n) (docs_of st ''product''))))"
    by (simp add: list_products_def get_documents_def build_filter_def)
  then show ?thesis
    by (simp add: bf lp api_list_products_def Let_def)
qed

theorem empty_category_ignored_witness:
  "fault mixed_store = None \<and> (1::int) \<le> 100
   \<and> list_products (Some mixed_store) (Some []) None 100
        = Some (Inr [normalize_record plain_doc, normalize_record pizza_doc])
   \<and> normalize_record plain_doc ''category'' = Some (VStr [])
   \<and> normalize_record pizza_doc ''category'' = Some (VStr ''Pizza'')"
proof -
  have f: "fault mixed_store = None"
    by (simp add: mixed_store_def)
  have d: "docs_of mixed_store ''product'' = [plain_doc, pizza_doc]"
    by (simp add: docs_of_def mixed_store_def)
  have "fault mixed_store = None \<and> (1::int) \<le> 100 \<longrightarrow>
        list_products (Some mixed_store) (Some []) None 100
          = Some (Inr (map normalize_record (take (nat 100) (docs_of mixed_store ''product''))))"
    using empty_category_ignored[where st = mixed_store and n = 100] by blast
  with f d have "list_products (Some mixed_store) (Some []) None 100
        = Some (Inr [normalize_record plain_doc, normalize_record pizza_doc])"
    by simp
  moreover have "normalize_record plain_doc ''category'' = Some (VStr [])"
    by (simp add: normalize_keeps plain_doc_def)
  moreover have "normalize_record pizza_doc ''category'' = Some (VStr ''Pizza'')"
    by (simp add: normalize_keeps pizza_doc_def)
  ultimately show ?thesis using f by simp
qed

text \<open>
  C7. For every non-empty category \<open>c\<close>, every record that
  \<^verbatim>\<open>GET /api/products?category=c\<close> returns has the category \<open>c\<close>, exactly, as the
  handler returns it and as the route sends it. The records the handler returns are the
  first \<^verbatim>\<open>limit\<close> stored records that have the category \<open>c\<close> and in whose title or
  description the search pattern is found: with both parameters, a record must satisfy
  both conditions.
\<close>

theorem category_filter:
  assumes "c \<noteq> []"
  shows "(list_products db (Some c) s n = Some (Inr rs) \<longrightarrow>
            list_all (\<lambda>r. r ''category'' = Some (VStr c)) rs
            \<and> (\<exists>st. db = Some st \<and>
                 rs = map normalize_record (take (nat n)
                        (filter (\<lambda>d. d ''category'' = Some (VStr c) \<and> search_holds s d)
                           (docs_of st ''product'')))))
    \<and> (api_list_products db (Some c) s l = Some (Inr out) \<longrightarrow>
            list_all (\<lambda>r. r ''category'' = Some (VStr c)) out)
    \<and> (fault st = None \<and> query_covered (build_filter (Some c) s) \<longrightarrow>
            list_products (Some st) (Some c) s n =
              Some (Inr (map normalize_record (take (nat n)
                (filter (\<lambda>d. d ''category'' = Some (VStr c) \<and> search_holds s d)
                   (docs_of st ''product''))))))"
proof -
  have m: "matches (build_filter (Some c) s) =
      (\<lambda>d. d ''category'' = Some (VStr c) \<and> search_holds s d)"
    using matches_category_search[OF assms] by (simp add: fun_eq_iff)
  have cat: "list_all (\<lambda>r. r ''category'' = Some (VStr c)) rs"
    if "list_products db (Some c) s k = Some (Inr rs)" for rs k
  proof -
    from list_products_Inr[OF that] obtain st where
      "rs = map normalize_record
         (take (nat k) (filter (matches (build_filter (Some c) s)) (docs_of st ''product'')))"
      by blast
    then show ?thesis
      unfolding m by (auto simp: list_all_iff normalize_keeps dest!: in_set_takeD)
  qed
  have one: "list_products db (Some c) s n = Some (Inr rs) \<longrightarrow>
            list_all (\<lambda>r. r ''category'' = Some (VStr c)) rs
            \<and> (\<exists>st. db = Some st \<and>
                 rs = map normalize_record (take (nat n)
                        (filter (\<lambda>d. d ''category'' = Some (VStr c) \<and> search_holds s d)
                           (docs_of st ''product''))))"
  proof
    assume a: "list_products db (Some c) s n = Some (Inr rs)"
    from list_products_Inr[OF a] cat[OF a] show "list_all (\<lambda>r. r ''category'' = Some (VStr c)) rs
            \<and> (\<exists>st. db = Some st \<and>
                 rs = map normalize_record (take (nat n)
                        (filter (\<lambda>d. d ''category'' = Some (VStr c) \<and> search_holds s d)
                           (docs_of st ''product''))))"
      unfolding m by blast
  qed
  have two: "api_list_products db (Some c) s l = Some (Inr out) \<longrightarrow>
            list_all (\<lambda>r. r ''category'' = Some (VStr c)) out"
  proof
    assume "api_list_products db (Some c) s l = Some (Inr out)"
    from api_list_products_Inr[OF this] obtain rs where
      rs: "list_products db (Some c) s (case l of None \<Rightarrow> 100 | Some n \<Rightarrow> n) = Some (Inr rs)"
      and out: "out = map response_view rs"
      by blast
    from cat[OF rs] show "list_all (\<lambda>r. r ''category'' = Some (VStr c)) out"
      unfolding out by (auto simp: list_all_iff response_view_keeps field_or_def)
  qed
  have three: "fault st = None \<and> query_covered (build_filter (Some c) s) \<longrightarrow>
            list_products (Some st) (Some c) s n =
              Some (Inr (map normalize_record (take (nat n)
                (filter (\<lambda>d. d ''category'' = Some (VStr c) \<and> search_holds s d)
                   (docs_of st ''product'')))))"
    using list_products_ok[of st "Some c" s n] unfolding m by blast
  from one two three show ?thesis by blast
qed

theorem category_filter_witness:
  "''Pizza'' \<noteq> []
   \<and> fault demo_store = None
   \<and> query_covered (build_filter (Some ''Pizza'') (Some ''thai''))
   \<and> query_covered (build_filter (Some ''Pizza'') (Some ''pizza''))
   \<and> list_products (Some demo_store) (Some ''Pizza'') (Some ''thai'') 100 = Some (Inr [])
   \<and> list_products (Some demo_store) (Some ''Pizza'') (Some ''pizza'') 100
        = Some (Inr [normalize_record pizza_doc])
   \<and> list_all (\<lambda>r. r ''category'' = Some (VStr ''Pizza'')) [normalize_record pizza_doc]
   \<and> api_list_products (Some demo_store) (Some ''Pizza'') (Some ''pizza'') None
        = Some (Inr [response_view (normalize_record pizza_doc)])
   \<and> list_all (\<lambda>r. r ''category'' = Some (VStr ''Pizza''))
        [response_view (normalize_record pizza_doc)]
   \<and> search_holds (Some ''thai'') pad_thai_doc
   \<and> pizza_doc ''category'' = Some (VStr ''Pizza'')"
proof -
  have ne: "''Pizza'' \<noteq> []" by simp
  have c1: "query_covered (build_filter (Some ''Pizza'') (Some ''thai''))"
    by (simp add: covered_build_filter regex_special_def)
  have c2: "query_covered (build_filter (Some ''Pizza'') (Some ''pizza''))"
    by (simp add: covered_build_filter regex_special_def)
  have h1: "search_holds (Some ''thai'') pad_thai_doc"
    by code_simp
  have h2: "\<not> search_holds (Some ''thai'') pizza_doc"
    by code_simp
  have h3: "search_holds (Some ''pizza'') pizza_doc"
    by code_simp
  have k1: "pad_thai_doc ''category'' \<noteq> Some (VStr ''Pizza'')"
    by (simp add: pad_thai_doc_def)
  have k2: "pizza_doc ''category'' = Some (VStr ''Pizza'')"
    by (simp add: pizza_doc_def)
  note t1 = category_filter[OF ne, where st = demo_store and s = "Some ''thai''" and n = 100]
  note t2 = category_filter[OF ne, where st = demo_store and s = "Some ''pizza''" and n = 100
      and db = "Some demo_store" and rs = "[normalize_record pizza_doc]" and l = None
      and out = "[response_view (normalize_record pizza_doc)]"]
  have l1: "list_products (Some demo_store) (Some ''Pizza'') (Some ''thai'') 100 = Some (Inr [])"
    using t1 demo_fault c1 h2 k1 by (simp add: demo_docs)
  have l2: "list_products (Some demo_store) (Some ''Pizza'') (Some ''pizza'') 100
        = Some (Inr [normalize_record pizza_doc])"
    using t2 demo_fault c2 h3 k1 k2 by (simp add: demo_docs)
  have p: "product_response (normalize_record pizza_doc) = Passes"
    by (rule product_record_response) (simp add: product_record_def pizza_doc_def)
  have a2: "api_list_products (Some demo_store) (Some ''Pizza'') (Some ''pizza'') None
        = Some (Inr [response_view (normalize_record pizza_doc)])"
    using l2 p by (simp add: api_list_products_def validate_response_def worst_def)
  from t2 l2 a2 have "list_all (\<lambda>r. r ''category'' = Some (VStr ''Pizza'')) [normalize_record pizza_doc]"
    and "list_all (\<lambda>r. r ''category'' = Some (VStr ''Pizza''))
        [response_view (normalize_record pizza_doc)]"
    by blast+
  with ne demo_fault c1 c2 l1 l2 a2 h1 k2 show ?thesis
    by blast
qed

subsection \<open>Seeding\<close>

text \<open>
  C3. On a reachable store: when the product collection is empty, \<^verbatim>\<open>POST /api/seed\<close>
  inserts the 8 sample products and reports \<^verbatim>\<open>inserted = 8\<close>; when it is not empty,
  the call leaves the store as it is and reports \<^verbatim>\<open>inserted = 0\<close>; and of two calls
  in succession, the second inserts nothing and reports as \<^verbatim>\<open>total\<close> the number of
  records the collection held after the first, which is the total the first reported.
\<close>

theorem seed_idempotent:
  assumes "fault st = None"
  shows "(docs_of st ''product'' = [] \<longrightarrow>
           (\<exists>st'. seed_products (Some st) = (Inr \<lparr>inserted = 8, total = 8\<rparr>, Some st')
              \<and> length (docs_of st' ''product'') = 8
              \<and> map strip_id (docs_of st' ''product'') = map product_fields sample_products))
    \<and> (docs_of st ''product'' \<noteq> [] \<longrightarrow>
           seed_products (Some st)
             = (Inr \<lparr>inserted = 0, total = length (docs_of st ''product'')\<rparr>, Some st))
    \<and> (\<exists>r1 st1 r2.
           seed_products (Some st) = (Inr r1, Some st1)
         \<and> seed_products (Some st1) = (Inr r2, Some st1)
         \<and> inserted r2 = 0
         \<and> total r2 = length (docs_of st1 ''product'')
         \<and> total r2 = total r1)"
proof (intro conjI impI)
  assume "docs_of st ''product'' = []"
  from seed_empty[OF assms this]
  show "\<exists>st'. seed_products (Some st) = (Inr \<lparr>inserted = 8, total = 8\<rparr>, Some st')
              \<and> length (docs_of st' ''product'') = 8
              \<and> map strip_id (docs_of st' ''product'') = map product_fields sample_products"
    by blast
next
  assume "docs_of st ''product'' \<noteq> []"
  from seed_nonempty[OF assms this]
  show "seed_products (Some st)
          = (Inr \<lparr>inserted = 0, total = length (docs_of st ''product'')\<rparr>, Some st)" .
next
  show "\<exists>r1 st1 r2.
           seed_products (Some st) = (Inr r1, Some st1)
         \<and> seed_products (Some st1) = (Inr r2, Some st1)
         \<and> inserted r2 = 0
         \<and> total r2 = length (docs_of st1 ''product'')
         \<and> total r2 = total r1"
  proof (cases "docs_of st ''product'' = []")
    case True
    from seed_empty[OF assms True] obtain st' where
      s1: "seed_products (Some st) = (Inr \<lparr>inserted = 8, total = 8\<rparr>, Some st')"
      and f: "fault st' = None" and l: "length (docs_of st' ''product'') = 8"
      by blast
    from l have ne: "docs_of st' ''product'' \<noteq> []" by auto
    from seed_nonempty[OF f ne] l
    have s2: "seed_products (Some st') = (Inr \<lparr>inserted = 0, total = 8\<rparr>, Some st')"
      by simp
    show ?thesis
      using s1 s2 l by (intro exI[of _ "\<lparr>inserted = 8, total = 8\<rparr>"] exI[of _ st']
          exI[of _ "\<lparr>inserted = 0, total = 8\<rparr>"]) simp
  next
    case False
    from seed_nonempty[OF assms False] show ?thesis
      by (intro exI[of _ "\<lparr>inserted = 0, total = length (docs_of st ''product'')\<rparr>"]
          exI[of _ st]) simp
  qed
qed

theorem seed_idempotent_witness:
  "fault empty_store = None \<and> docs_of empty_store ''product'' = []
   \<and> (\<exists>st'. seed_products (Some empty_store) = (Inr \<lparr>inserted = 8, total = 8\<rparr>, Some st')
          \<and> length (docs_of st' ''product'') = 8
          \<and> map strip_id (docs_of st' ''product'') = map product_fields sample_products)
   \<and> fault demo_store = None \<and> docs_of demo_store ''product'' \<noteq> []
   \<and> seed_products (Some demo_store) = (Inr \<lparr>inserted = 0, total = 2\<rparr>, Some demo_store)
   \<and> (\<exists>r1 st1 r2.
           seed_products (Some empty_store) = (Inr r1, Some st1)
         \<and> seed_products (Some st1) = (Inr r2, Some st1)
         \<and> inserted r2 = 0
         \<and> total r2 = length (docs_of st1 ''product'')
         \<and> total r2 = total r1)"
proof -
  have fe: "fault empty_store = None" and de: "docs_of empty_store ''product'' = []"
    by (simp_all add: empty_store_def docs_of_def)
  have dd: "docs_of demo_store ''product'' \<noteq> []"
    by (simp add: demo_docs)
  from seed_idempotent[OF fe] seed_idempotent[OF demo_fault] fe de dd demo_fault
  show ?thesis
    by (simp add: demo_docs)
qed

subsection \<open>Search\<close>




subsection \<open>Create, then list\<close>

text \<open>
  C1, as amended. On a reachable store whose product collection holds fewer than 100
  records, each with the shape of a product, for every valid payload,
  \<^verbatim>\<open>POST /api/products\<close> returns an identifier that is not empty, and
  \<^verbatim>\<open>GET /api/products\<close> without parameters then returns a record with that \<^verbatim>\<open>id\<close>
  whose title, description, price, category and \<^verbatim>\<open>in_stock\<close> are those of the payload.
\<close>

theorem create_then_list:
  assumes "fault st = None" "valid_product p" "length (docs_of st ''product'') < 100"
    "list_all product_record (docs_of st ''product'')"
  shows "\<exists>i st'. api_create_product (Some st) p = (Inr [''id'' \<mapsto> VStr i], Some st')
           \<and> i \<noteq> []
           \<and> (\<exists>rs. api_list_products (Some st') None None None = Some (Inr rs)
                 \<and> list_ex (\<lambda>r. r ''id'' = Some (VStr i) \<and> same_fields p r) rs)"
proof -
  let ?d = "(product_fields p)(''_id'' \<mapsto> VObjectId (next_oid st))"
  let ?i = "oid_text (next_oid st)"
  from create_then_get[OF assms(1,2,4)] obtain st' where
    post: "api_create_product (Some st) p = (Inr [''id'' \<mapsto> VStr ?i], Some st')" and
    get0: "api_list_products (Some st') None None None
             = Some (Inr (map response_view (map normalize_record
                 (take 100 (docs_of st ''product'' @ [?d])))))"
    by blast
  from get0 assms(3) have get: "api_list_products (Some st') None None None
             = Some (Inr (map response_view (map normalize_record
                 (docs_of st ''product'' @ [?d]))))"
    by simp
  have "response_view (normalize_record ?d) ''id'' = Some (VStr ?i)
      \<and> same_fields p (response_view (normalize_record ?d))"
    by (simp add: response_id_new same_fields_response)
  then have "list_ex (\<lambda>r. r ''id'' = Some (VStr ?i) \<and> same_fields p r)
      (map response_view (map normalize_record (docs_of st ''product'' @ [?d])))"
    by (simp add: list_ex_iff)
  with post get oid_text_not_empty[of "next_oid st"] show ?thesis
    by blast
qed

theorem create_then_list_witness:
  "fault demo_store = None \<and> valid_product calzone
   \<and> length (docs_of demo_store ''product'') < 100
   \<and> list_all product_record (docs_of demo_store ''product'')
   \<and> (\<exists>i st'. api_create_product (Some demo_store) calzone = (Inr [''id'' \<mapsto> VStr i], Some st')
           \<and> i \<noteq> []
           \<and> (\<exists>rs. api_list_products (Some st') None None None = Some (Inr rs)
                 \<and> list_ex (\<lambda>r. r ''id'' = Some (VStr i) \<and> same_fields calzone r) rs))"
proof -
  have v: "valid_product calzone"
    by (simp add: valid_product_def calzone_def)
  have l: "length (docs_of demo_store ''product'') < 100"
    by (simp add: demo_docs)
  from create_then_list[OF demo_fault v l demo_records] demo_fault v l demo_records show ?thesis
    by blast
qed

text \<open>
  C1 as stated fails: when the collection already holds 100 records, the request without
  parameters returns those 100 (the default \<^verbatim>\<open>limit\<close>), and the record just created
  is not among them.
\<close>

theorem default_limit_hides_new_record:
  "fault full_store = None \<and> valid_product calzone
   \<and> length (docs_of full_store ''product'') = 100
   \<and> list_all product_record (docs_of full_store ''product'')
   \<and> fst (api_create_product (Some full_store) calzone)
        = Inr [''id'' \<mapsto> VStr ''000000000000000000000064'']
   \<and> api_list_products (snd (api_create_product (Some full_store) calzone)) None None None
        = Some (Inr (map response_view (map normalize_record (docs_of full_store ''product''))))
   \<and> \<not> list_ex (same_fields calzone)
         (map response_view (map normalize_record (docs_of full_store ''product'')))"
proof -
  have f: "fault full_store = None"
    by (simp add: full_store_def)
  have v: "valid_product calzone"
    by (simp add: valid_product_def calzone_def)
  have d: "docs_of full_store ''product'' = map old_doc [0..<100]"
    by (simp add: docs_of_def full_store_def)
  have l: "length (docs_of full_store ''product'') = 100"
    by (simp add: d)
  have pr: "product_record (old_doc k)" for k
    by (simp add: product_record_def old_doc_def pizza_doc_def)
  have ok: "list_all product_record (docs_of full_store ''product'')"
    by (simp add: d list_all_iff pr)
  have n: "oid_text (next_oid full_store) = ''000000000000000000000064''"
    by code_simp
  from create_then_get[OF f v ok] obtain st' where
    post: "api_create_product (Some full_store) calzone
             = (Inr [''id'' \<mapsto> VStr (oid_text (next_oid full_store))], Some st')" and
    get0: "api_list_products (Some st') None None None
             = Some (Inr (map response_view (map normalize_record
                 (take 100 (docs_of full_store ''product'' @
                 [(product_fields calzone)(''_id'' \<mapsto> VObjectId (next_oid full_store))])))))"
    by blast
  from get0 l have get: "api_list_products (Some st') None None None
             = Some (Inr (map response_view (map normalize_record (docs_of full_store ''product''))))"
    by simp
  have t: "response_view (normalize_record (old_doc k)) ''title'' = Some (VStr ''Margherita Pizza'')" for k
    by (simp add: response_view_keeps normalize_keeps old_doc_def pizza_doc_def field_or_def)
  have no: "\<not> list_ex (same_fields calzone)
      (map response_view (map normalize_record (docs_of full_store ''product'')))"
    by (simp add: d list_ex_iff same_fields_def t calzone_def)
  show ?thesis
    using f v l ok post get no by (simp add: n)
qed

subsection \<open>Categories\<close>

text \<open>
  C6. On a reachable store whose products have a category that is text, null or absent,
  \<^verbatim>\<open>GET /api/categories\<close> returns a list of strings that is sorted in ascending
  order, has no duplicate and no empty string, and holds exactly the non-empty category
  values of the stored products.
\<close>

theorem categories_sorted_distinct:
  assumes "fault st = None" "list_all category_is_text (docs_of st ''product'')"
  shows "\<exists>cs. list_categories (Some st) = Some (Inr (map VStr cs))
           \<and> sorted cs \<and> distinct cs \<and> [] \<notin> set cs
           \<and> set cs = {c. c \<noteq> [] \<and>
                 (\<exists>d \<in> set (docs_of st ''product''). d ''category'' = Some (VStr c))}"
proof -
  let ?ds = "docs_of st ''product''"
  let ?vs = "remdups (List.map_filter (\<lambda>d. d ''category'') ?ds)"
  let ?ts = "filter truthy ?vs"
  let ?cs = "sort (List.map_filter text_of ?ts)"
  have typed: "v = VNone \<or> (\<exists>c. v = VStr c)" if "v \<in> set ?vs" for v
  proof -
    from that obtain d where d: "d \<in> set ?ds" "d ''category'' = Some v"
      by (auto simp: category_values)
    with assms(2) have "category_is_text d" by (simp add: list_all_iff)
    with d(2) show ?thesis by (cases v) (simp_all add: category_is_text_def)
  qed
  have texts: "list_all (\<lambda>v. text_of v \<noteq> None) ?ts"
    unfolding list_all_iff
  proof
    fix v assume "v \<in> set ?ts"
    then have "v \<in> set ?vs" "truthy v" by simp_all
    with typed[of v] show "text_of v \<noteq> None" by auto
  qed
  have dv: "distinct_values st ''product'' ''category'' = Inr ?vs"
    using assms(1) by (simp add: distinct_values_def)
  have res: "list_categories (Some st) = Some (Inr (map VStr ?cs))"
    using texts by (simp add: list_categories_def dv py_sorted_def)
  have "distinct ?ts" by simp
  then have dis: "distinct ?cs"
    by (simp add: distinct_map_filter_text)
  have st: "set ?cs = {c. c \<noteq> [] \<and> (\<exists>d \<in> set ?ds. d ''category'' = Some (VStr c))}"
    by (auto simp: set_map_filter_text category_values)
  then have "[] \<notin> set ?cs" by blast
  with res dis st show ?thesis
    by (intro exI[of _ ?cs]) simp
qed

theorem categories_sorted_distinct_witness:
  "fault menu_store = None \<and> list_all category_is_text (docs_of menu_store ''product'')
   \<and> (\<exists>cs. list_categories (Some menu_store) = Some (Inr (map VStr cs))
           \<and> sorted cs \<and> distinct cs \<and> [] \<notin> set cs
           \<and> set cs = {c. c \<noteq> [] \<and>
                 (\<exists>d \<in> set (docs_of menu_store ''product''). d ''category'' = Some (VStr c))})
   \<and> list_categories (Some menu_store) = Some (Inr [VStr ''Asian'', VStr ''Pizza''])"
proof -
  have f: "fault menu_store = None"
    by (simp add: menu_store_def)
  have d: "docs_of menu_store ''product'' = [pizza_doc, plain_doc, pad_thai_doc, old_doc 3]"
    by (simp add: docs_of_def menu_store_def)
  have t: "list_all category_is_text (docs_of menu_store ''product'')"
    by (simp add: d category_is_text_def pizza_doc_def plain_doc_def pad_thai_doc_def old_doc_def)
  have e: "list_categories (Some menu_store) = Some (Inr [VStr ''Asian'', VStr ''Pizza''])"
    by code_simp
  from categories_sorted_distinct[OF f t] f t e show ?thesis
    by blast
qed

subsection \<open>The diagnostic endpoint\<close>

text \<open>
  C9. \<^verbatim>\<open>GET /test\<close> returns for every environment and every connection handle, be it
  \<^verbatim>\<open>None\<close> or a store that raises on access. The object it returns has exactly the keys
  \<^verbatim>\<open>backend\<close>, \<^verbatim>\<open>database\<close>, \<^verbatim>\<open>database_url\<close>, \<^verbatim>\<open>database_name\<close>,
  \<^verbatim>\<open>connection_status\<close> and \<^verbatim>\<open>collections\<close>; \<^verbatim>\<open>collections\<close> holds at most 10
  names, the first 10 of the store's when it answers; and when the store raises, the text
  of the exception, cut to its first 50 characters, is in the \<^verbatim>\<open>database\<close> entry.
\<close>

theorem test_database_total:
  "\<exists>r. test_database env db = Inr r
     \<and> dom r = {''backend'', ''database'', ''database_url'', ''database_name'',
                ''connection_status'', ''collections''}
     \<and> (\<exists>names. r ''collections'' = Some (JList names) \<and> length names \<le> 10
           \<and> names = (case db of
                  None \<Rightarrow> []
                | Some st \<Rightarrow>
                    (case fault st of
                       Some m \<Rightarrow> []
                     | None \<Rightarrow> take 10 (map fst (collections st)))))
     \<and> r ''database'' = Some (JStr (case db of
           None \<Rightarrow> warning_sign @ ''  Available but not initialized''
         | Some st \<Rightarrow>
             (case fault st of
                Some m \<Rightarrow> warning_sign @ ''  Connected but Error: '' @ take 50 m
              | None \<Rightarrow> check_mark @ '' Connected & Working'')))
     \<and> r ''backend'' = Some (JStr (check_mark @ '' Running''))
     \<and> r ''connection_status'' =
         Some (JStr (case db of None \<Rightarrow> ''Not Connected'' | Some st \<Rightarrow> ''Connected''))
     \<and> r ''database_url'' =
         Some (JStr (if env_set env ''DATABASE_URL'' then check_mark @ '' Set''
                     else cross_mark @ '' Not Set''))
     \<and> r ''database_name'' =
         Some (JStr (if env_set env ''DATABASE_NAME'' then check_mark @ '' Set''
                     else cross_mark @ '' Not Set''))"
proof (cases db)
  case None
  then show ?thesis
    by (auto simp: test_database_def test_body_def Let_def)
next
  case (Some st)
  show ?thesis
  proof (cases "fault st")
    case None
    with Some show ?thesis
      by (auto simp: test_database_def test_body_def test_collections_def
          list_collection_names_def Let_def)
  next
    case (Some m)
    with \<open>db = Some st\<close> show ?thesis
      by (auto simp: test_database_def test_body_def test_collections_def
          list_collection_names_def Let_def)
  qed
qed

end
